theory Spec2Isabelle
  imports Main "HOL-Library.Word" "HOL-Library.Sublist"
begin

section \<open>Values, text forms and query results\<close>

text \<open>
  The client works on the values the SQL engine hands out: \<^verbatim>\<open>number | string | Uint8Array | null\<close>.
  JavaScript numbers are a type parameter \<open>'n\<close>; the text a number prints as
  (ECMAScript's Number-to-String) is the parameter \<open>numText\<close> of every function that
  interpolates a value into a template literal. For integers in the safe range that text is the
  decimal numeral, \<open>showInt\<close> below.
\<close>

type_synonym byte = "8 word"

datatype 'n sqlvalue = SqlNull | SqlNumber 'n | SqlText string | SqlBlob "byte list"

text \<open>\<^verbatim>\<open>QueryResult\<close> of shared/schema.ts; the engine's result sets have the same shape.\<close>

record 'n QueryResult =
  columns :: "string list"
  "values" :: "'n sqlvalue list list"

definition dquote :: char where
  "dquote = CHR 0x22"

definition newline :: char where
  "newline = CHR 0x0A"

text \<open>\<^verbatim>\<open>Array.prototype.join\<close> on an array of strings.\<close>

fun join :: "string \<Rightarrow> string list \<Rightarrow> string" where
  "join sep [] = []"
| "join sep [x] = x"
| "join sep (x # y # zs) = x @ sep @ join sep (y # zs)"

definition digit :: "nat \<Rightarrow> char" where
  "digit d = ''0123456789'' ! d"

function digits :: "nat \<Rightarrow> string" where
  "digits n = (if n < 10 then [digit n] else digits (n div 10) @ [digit (n mod 10)])"
  by pat_completeness auto
termination
  by (relation "measure (\<lambda>n. n)") auto

declare digits.simps [simp del]

definition showInt :: "int \<Rightarrow> string" where
  "showInt i = (if i < 0 then CHR ''-'' # digits (nat (- i)) else digits (nat i))"

text \<open>
  The text a template literal \<^verbatim>\<open>${v}\<close> inserts. \<open>None\<close> is JavaScript's \<^verbatim>\<open>undefined\<close>
  (an array read out of range); a \<^verbatim>\<open>Uint8Array\<close> prints its bytes in decimal, joined by commas.
\<close>

fun toString :: "('n \<Rightarrow> string) \<Rightarrow> 'n sqlvalue \<Rightarrow> string" where
  "toString numText SqlNull = ''null''"
| "toString numText (SqlNumber n) = numText n"
| "toString numText (SqlText s) = s"
| "toString numText (SqlBlob bs) = join '','' (map (\<lambda>b. digits (unat b)) bs)"

fun toStringU :: "('n \<Rightarrow> string) \<Rightarrow> 'n sqlvalue option \<Rightarrow> string" where
  "toStringU numText None = ''undefined''"
| "toStringU numText (Some v) = toString numText v"

section \<open>exportToCSV (client/src/lib/sqlite-utils.ts)\<close>

text \<open>\<^verbatim>\<open>`"${value ?? ''}"`\<close>: null becomes the empty string, any other cell its text form.\<close>

definition quoteCell :: "('n \<Rightarrow> string) \<Rightarrow> 'n sqlvalue \<Rightarrow> string" where
  "quoteCell numText value =
     [dquote] @ (case value of SqlNull \<Rightarrow> '''' | _ \<Rightarrow> toString numText value) @ [dquote]"

definition quoteCol :: "string \<Rightarrow> string" where
  "quoteCol col = [dquote] @ col @ [dquote]"

text \<open>The \<^verbatim>\<open>for\<close> loop over \<^verbatim>\<open>result.values\<close>, pushing one joined line per row.\<close>

fun pushRows :: "('n \<Rightarrow> string) \<Rightarrow> 'n sqlvalue list list \<Rightarrow> string list \<Rightarrow> string list" where
  "pushRows numText [] csvRows = csvRows"
| "pushRows numText (row # rows) csvRows =
     pushRows numText rows (csvRows @ [join '','' (map (quoteCell numText) row)])"

definition exportToCSV :: "('n \<Rightarrow> string) \<Rightarrow> 'n QueryResult \<Rightarrow> string" where
  "exportToCSV numText result =
     (if length (columns result) = 0 then ''''
      else let csvRows = [];
               csvRows = csvRows @ [join '','' (map quoteCol (columns result))];
               csvRows = pushRows numText (values result) csvRows
           in join [newline] csvRows)"

text \<open>
  The document as the specification words it: a header row of the column names, then one row
  per data row; every field wrapped in double quotes, the fields of a row separated by commas,
  the rows separated by newlines; a cell is rendered as its text form and null as the empty
  string; the empty string when there is no column.
\<close>

definition spec_field :: "string \<Rightarrow> string" where
  "spec_field s = dquote # s @ [dquote]"

fun spec_cellText :: "('n \<Rightarrow> string) \<Rightarrow> 'n sqlvalue \<Rightarrow> string" where
  "spec_cellText numText SqlNull = ''''"
| "spec_cellText numText v = toString numText v"

fun spec_separated :: "char \<Rightarrow> string list \<Rightarrow> string" where
  "spec_separated c [] = ''''"
| "spec_separated c (x # xs) = x @ concat (map (\<lambda>y. c # y) xs)"

definition spec_row :: "string list \<Rightarrow> string" where
  "spec_row flds = spec_separated CHR '','' (map spec_field flds)"

definition spec_csv :: "('n \<Rightarrow> string) \<Rightarrow> 'n QueryResult \<Rightarrow> string" where
  "spec_csv numText r =
     (if columns r = [] then ''''
      else spec_separated newline
             (spec_row (columns r) # map (\<lambda>row. spec_row (map (spec_cellText numText) row)) (values r)))"

section \<open>The engine handle\<close>

text \<open>
  Values a JavaScript \<^verbatim>\<open>throw\<close> can carry. \<open>Error\<close>, \<open>TypeError\<close> and \<open>MulterError\<close>
  (with its code) are instances of \<^verbatim>\<open>Error\<close> and have a message; \<open>NonError\<close> is any other
  thrown value.
\<close>

datatype exn = Error string | TypeError string | MulterError string string | NonError string

fun instanceofError :: "exn \<Rightarrow> bool" where
  "instanceofError (NonError v) = False"
| "instanceofError e = True"

fun message :: "exn \<Rightarrow> string" where
  "message (Error m) = m"
| "message (TypeError m) = m"
| "message (MulterError code m) = m"
| "message (NonError v) = ''''"

text \<open>
  \<^verbatim>\<open>this.db\<close> is a handle of the sql.js engine, a library outside the repository. Its
  \<^verbatim>\<open>exec(sql)\<close> is the parameter \<open>exec\<close>: from the state of the handle and the SQL text it
  either throws or returns the list of result sets, and leaves the handle in a new state.
\<close>

type_synonym ('db, 'n) dbexec = "'db \<Rightarrow> string \<Rightarrow> (exn + 'n QueryResult list) \<times> 'db"

text \<open>An array read \<^verbatim>\<open>row[i]\<close>: \<^verbatim>\<open>undefined\<close> (\<open>None\<close>) out of range.\<close>

definition nth_opt :: "'a list \<Rightarrow> nat \<Rightarrow> 'a option" where
  "nth_opt xs i = (if i < length xs then Some (xs ! i) else None)"

text \<open>
  \<^verbatim>\<open>ColumnInfo\<close> and the table entries of \<^verbatim>\<open>DatabaseSchema\<close> (shared/schema.ts). The fields
  hold whatever the engine returned; \<open>cname\<close> and \<open>ctype\<close> are the fields \<^verbatim>\<open>name\<close> and
  \<^verbatim>\<open>type\<close> of a column, \<open>tcolumns\<close> the field \<^verbatim>\<open>columns\<close> of a table.
\<close>

record 'n ColumnInfo =
  cid :: "'n sqlvalue option"
  cname :: "'n sqlvalue option"
  ctype :: "'n sqlvalue option"
  notnull :: "'n sqlvalue option"
  dflt_value :: "'n sqlvalue option"
  pk :: "'n sqlvalue option"

record 'n TableEntry =
  name :: "'n sqlvalue option"
  tcolumns :: "'n ColumnInfo list"
  rowCount :: "'n sqlvalue option"

section \<open>SqliteDatabase.getSchema\<close>

definition tablesQuery :: string where
  "tablesQuery = ''SELECT name, sql FROM sqlite_master WHERE type='' @ [CHR 0x27] @ ''table''
     @ [CHR 0x27] @ '' AND name NOT LIKE '' @ [CHR 0x27] @ ''sqlite_%'' @ [CHR 0x27]"

definition columnsQuery :: "('n \<Rightarrow> string) \<Rightarrow> 'n sqlvalue option \<Rightarrow> string" where
  "columnsQuery numText tableName = ''PRAGMA table_info('' @ toStringU numText tableName @ '')''"

definition countQuery :: "('n \<Rightarrow> string) \<Rightarrow> 'n sqlvalue option \<Rightarrow> string" where
  "countQuery numText tableName = ''SELECT COUNT(*) FROM '' @ toStringU numText tableName"

definition toColumnInfo :: "'n sqlvalue list \<Rightarrow> 'n ColumnInfo" where
  "toColumnInfo row =
     \<lparr>cid = nth_opt row 0, cname = nth_opt row 1, ctype = nth_opt row 2,
      notnull = nth_opt row 3, dflt_value = nth_opt row 4, pk = nth_opt row 5\<rparr>"

definition columnsOf :: "'n QueryResult list \<Rightarrow> 'n ColumnInfo list" where
  "columnsOf columnsResult =
     (case columnsResult of [] \<Rightarrow> [] | c # _ \<Rightarrow> map toColumnInfo (values c))"

text \<open>
  \<^verbatim>\<open>countResult.length > 0 ? countResult[0].values[0][0] : 0\<close>. Reading \<^verbatim>\<open>[0]\<close> of the
  \<^verbatim>\<open>undefined\<close> first row of an empty \<^verbatim>\<open>values\<close> throws a TypeError (the wording of its
  message is the JavaScript engine's; no theorem rests on it).
\<close>

definition undefinedRead :: exn where
  "undefinedRead = TypeError ''Cannot read properties of undefined''"

definition rowCountOf :: "('n::zero) QueryResult list \<Rightarrow> exn + 'n sqlvalue option" where
  "rowCountOf countResult =
     (case countResult of
        [] \<Rightarrow> Inr (Some (SqlNumber 0))
      | c # _ \<Rightarrow> (case values c of [] \<Rightarrow> Inl undefinedRead | row0 # _ \<Rightarrow> Inr (nth_opt row0 0)))"

text \<open>The body of the loop over the catalog rows, for one table name.\<close>

definition readTable ::
  "('n \<Rightarrow> string) \<Rightarrow> ('db, 'n::zero) dbexec \<Rightarrow> 'db \<Rightarrow> 'n sqlvalue option
     \<Rightarrow> (exn + 'n TableEntry) \<times> 'db" where
  "readTable numText exec db tableName =
     (case exec db (columnsQuery numText tableName) of
        (Inl e, db1) \<Rightarrow> (Inl e, db1)
      | (Inr columnsResult, db1) \<Rightarrow>
          (case exec db1 (countQuery numText tableName) of
             (Inl e, db2) \<Rightarrow> (Inl e, db2)
           | (Inr countResult, db2) \<Rightarrow>
               (case rowCountOf countResult of
                  Inl e \<Rightarrow> (Inl e, db2)
                | Inr rc \<Rightarrow>
                    (Inr \<lparr>name = tableName, tcolumns = columnsOf columnsResult, rowCount = rc\<rparr>,
                     db2))))"

text \<open>
  \<^verbatim>\<open>for (const [tableName] of tableRows)\<close>: the first cell of each catalog row is the table
  name; every entry is pushed onto \<^verbatim>\<open>tables\<close>. A throw leaves the loop and the function.
\<close>

fun tableLoop ::
  "('n \<Rightarrow> string) \<Rightarrow> ('db, 'n::zero) dbexec \<Rightarrow> 'n sqlvalue list list \<Rightarrow> 'n TableEntry list
     \<Rightarrow> 'db \<Rightarrow> (exn + 'n TableEntry list) \<times> 'db" where
  "tableLoop numText exec [] tables db = (Inr tables, db)"
| "tableLoop numText exec (row # tableRows) tables db =
     (case readTable numText exec db (nth_opt row 0) of
        (Inl e, db') \<Rightarrow> (Inl e, db')
      | (Inr t, db') \<Rightarrow> tableLoop numText exec tableRows (tables @ [t]) db')"

record 'n DatabaseSchema =
  tables :: "'n TableEntry list"

definition getSchema ::
  "('n \<Rightarrow> string) \<Rightarrow> ('db, 'n::zero) dbexec \<Rightarrow> 'db \<Rightarrow> (exn + 'n DatabaseSchema) \<times> 'db" where
  "getSchema numText exec db =
     (case exec db tablesQuery of
        (Inl e, db') \<Rightarrow> (Inl e, db')
      | (Inr tablesResult, db') \<Rightarrow>
          (case tablesResult of
             [] \<Rightarrow> (Inr \<lparr>tables = []\<rparr>, db')
           | r # _ \<Rightarrow>
               (case tableLoop numText exec (values r) [] db' of
                  (Inl e, db'') \<Rightarrow> (Inl e, db'')
                | (Inr ts, db'') \<Rightarrow> (Inr \<lparr>tables = ts\<rparr>, db''))))"

section \<open>SqliteDatabase.executeQuery\<close>

text \<open>
  \<^verbatim>\<open>result[0].columns || []\<close> is \<^verbatim>\<open>result[0].columns\<close>: an array, empty or not, is truthy.
  The \<^verbatim>\<open>catch\<close> wraps whatever was thrown in a new \<^verbatim>\<open>Error\<close>.
\<close>

definition sqlError :: "exn \<Rightarrow> exn" where
  "sqlError error =
     Error (''SQL Error: '' @ (if instanceofError error then message error else ''Unknown error''))"

definition executeQuery :: "('db, 'n) dbexec \<Rightarrow> 'db \<Rightarrow> string \<Rightarrow> (exn + 'n QueryResult) \<times> 'db" where
  "executeQuery exec db sql =
     (case exec db sql of
        (Inl error, db') \<Rightarrow> (Inl (sqlError error), db')
      | (Inr result, db') \<Rightarrow>
          (if length result = 0 then (Inr \<lparr>columns = [], values = []\<rparr>, db')
           else (Inr \<lparr>columns = columns (result ! 0), values = values (result ! 0)\<rparr>, db')))"

section \<open>MemStorage (server/storage.ts)\<close>

type_synonym buffer = "byte list"

text \<open>
  \<^verbatim>\<open>InsertSqliteFile\<close> and \<^verbatim>\<open>SqliteFile\<close> of shared/schema.ts; \<open>file_id\<close> is the field
  \<^verbatim>\<open>id\<close>, \<open>uploadedAt\<close> a timestamp.
\<close>

record InsertSqliteFile =
  filename :: string
  originalName :: string
  fileSize :: nat

record SqliteFile = InsertSqliteFile +
  file_id :: string
  uploadedAt :: nat

text \<open>
  Node's \<^verbatim>\<open>fs\<close> and \<^verbatim>\<open>path\<close> modules are libraries: the calls the storage makes are the
  fields of a parameter record over an abstract file system \<open>'fs\<close>. A call that throws returns
  \<open>Inl\<close> and leaves the file system as it was.
\<close>

record 'fs node =
  existsSync :: "'fs \<Rightarrow> string \<Rightarrow> bool"
  readFileSync :: "'fs \<Rightarrow> string \<Rightarrow> exn + buffer"
  writeFileSync :: "'fs \<Rightarrow> string \<Rightarrow> buffer \<Rightarrow> exn + 'fs"
  unlinkSync :: "'fs \<Rightarrow> string \<Rightarrow> exn + 'fs"
  path_join :: "string \<Rightarrow> string \<Rightarrow> string"

text \<open>The fields of the class, and the file system the process runs on (\<open>disk\<close>).\<close>

record 'fs MemStorage =
  files :: "string \<rightharpoonup> SqliteFile"
  fileBuffers :: "string \<rightharpoonup> buffer"
  uploadsDir :: string
  disk :: 'fs

definition getSqliteFile :: "'fs MemStorage \<Rightarrow> string \<Rightarrow> SqliteFile option" where
  "getSqliteFile this ident = files this ident"

text \<open>\<^verbatim>\<open>randomUUID()\<close> and \<^verbatim>\<open>new Date()\<close> are the arguments \<open>ident\<close> and \<open>now\<close>.\<close>

definition createSqliteFile ::
  "'fs MemStorage \<Rightarrow> InsertSqliteFile \<Rightarrow> string \<Rightarrow> nat \<Rightarrow> SqliteFile \<times> 'fs MemStorage" where
  "createSqliteFile this insertFile ident now =
     (let file = \<lparr>filename = filename insertFile, originalName = originalName insertFile,
                  fileSize = fileSize insertFile, file_id = ident, uploadedAt = now\<rparr>
      in (file, this\<lparr>files := (files this)(ident \<mapsto> file)\<rparr>))"

definition deleteSqliteFile ::
  "'fs node \<Rightarrow> 'fs MemStorage \<Rightarrow> string \<Rightarrow> (exn + unit) \<times> 'fs MemStorage" where
  "deleteSqliteFile fs this ident =
     (case files this ident of
        None \<Rightarrow> (Inr (), this)
      | Some file \<Rightarrow>
          (let filePath = path_join fs (uploadsDir this) (filename file) in
           case (if existsSync fs (disk this) filePath then unlinkSync fs (disk this) filePath
                 else Inr (disk this)) of
             Inl e \<Rightarrow> (Inl e, this)
           | Inr disk' \<Rightarrow>
               (Inr (), this\<lparr>disk := disk',
                              files := (files this)(ident := None),
                              fileBuffers := (fileBuffers this)(filename file := None)\<rparr>)))"

text \<open>\<^verbatim>\<open>if (cached)\<close>: a Buffer object, empty or not, is truthy.\<close>

definition getFileBuffer ::
  "'fs node \<Rightarrow> 'fs MemStorage \<Rightarrow> string \<Rightarrow> (exn + buffer) \<times> 'fs MemStorage" where
  "getFileBuffer fs this fname =
     (case fileBuffers this fname of
        Some cached \<Rightarrow> (Inr cached, this)
      | None \<Rightarrow>
          (let filePath = path_join fs (uploadsDir this) fname in
           if existsSync fs (disk this) filePath then
             (case readFileSync fs (disk this) filePath of
                Inl e \<Rightarrow> (Inl e, this)
              | Inr buf \<Rightarrow> (Inr buf, this\<lparr>fileBuffers := (fileBuffers this)(fname \<mapsto> buf)\<rparr>))
           else (Inl (Error ''File not found''), this)))"

definition saveFileBuffer ::
  "'fs node \<Rightarrow> 'fs MemStorage \<Rightarrow> string \<Rightarrow> buffer \<Rightarrow> (exn + unit) \<times> 'fs MemStorage" where
  "saveFileBuffer fs this fname buf =
     (let filePath = path_join fs (uploadsDir this) fname in
      case writeFileSync fs (disk this) filePath buf of
        Inl e \<Rightarrow> (Inl e, this)
      | Inr disk' \<Rightarrow>
          (Inr (), this\<lparr>disk := disk', fileBuffers := (fileBuffers this)(fname \<mapsto> buf)\<rparr>))"

section \<open>The upload and delete routes (server/routes.ts)\<close>

text \<open>
  \<^verbatim>\<open>path.extname\<close> of Node (POSIX), a library function, after its documentation: the
  extension runs from the last dot of the last path segment to the end of the segment, trailing
  separators ignored; it is empty when the segment has no dot, when its only dot is its first
  character, and for the segment \<^verbatim>\<open>..\<close>.
\<close>

definition extname :: "string \<Rightarrow> string" where
  "extname p =
     (let trimmed = rev (dropWhile (\<lambda>c. c = CHR ''/'') (rev p));
          base = rev (takeWhile (\<lambda>c. c \<noteq> CHR ''/'') (rev trimmed));
          afterDot = rev (takeWhile (\<lambda>c. c \<noteq> CHR ''.'') (rev base));
          startDot = length base - length afterDot - 1
      in if CHR ''.'' \<notin> set base then ''''
         else if startDot = 0 then ''''
         else if base = ''..'' then ''''
         else drop startDot base)"

text \<open>
  \<^verbatim>\<open>String.prototype.toLowerCase\<close> on the letters A to Z. No other character is mapped to a
  character of the allowed extensions, so the membership test below is the one of the source.
\<close>

definition toLowerChar :: "char \<Rightarrow> char" where
  "toLowerChar c =
     (case map_of (zip ''ABCDEFGHIJKLMNOPQRSTUVWXYZ'' ''abcdefghijklmnopqrstuvwxyz'') c of
        Some l \<Rightarrow> l
      | None \<Rightarrow> c)"

definition toLowerCase :: "string \<Rightarrow> string" where
  "toLowerCase s = map toLowerChar s"

definition allowedExts :: "string list" where
  "allowedExts = [''.db'', ''.sqlite'', ''.sqlite3'']"

definition filterError :: exn where
  "filterError = Error ''Only SQLite files (.db, .sqlite, .sqlite3) are allowed''"

text \<open>The \<^verbatim>\<open>fileFilter\<close> callback: \<open>Inl\<close> is \<^verbatim>\<open>cb(err)\<close>, \<open>Inr True\<close> is \<^verbatim>\<open>cb(null, true)\<close>.\<close>

definition fileFilter :: "string \<Rightarrow> exn + bool" where
  "fileFilter originalname =
     (let ext = toLowerCase (extname originalname)
      in if List.member allowedExts ext then Inr True else Inl filterError)"

definition fileSizeLimit :: nat where
  "fileSizeLimit = 100 * 1024 * 1024"

text \<open>
  A file part of the multipart request as multer sees it, and \<^verbatim>\<open>req.file\<close> under multer's
  memory storage: the name of the form field, the file name of the part (a base name: the
  parser strips any path) and the bytes; \<^verbatim>\<open>size\<close> is the length of the buffer.
\<close>

record UploadedFile =
  fieldname :: string
  originalname :: string
  filebuffer :: buffer

text \<open>
  \<^verbatim>\<open>upload.single('file')\<close>. The control flow is multer's (a library), after its source: the
  file parts of the request are taken in order. A part with an empty file name is skipped. A
  part in a field other than \<^verbatim>\<open>file\<close>, or a second part in that field (\<open>filesLeft\<close> counts
  down from 1), is an error \<^verbatim>\<open>LIMIT_UNEXPECTED_FILE\<close>. Then the repository's filter runs; an
  error from the filter, or a file longer than \<^verbatim>\<open>limits.fileSize\<close>, ends the parsing. Every
  error is passed to \<^verbatim>\<open>next(err)\<close> (\<open>Inl\<close>) and the route handler is not called. A file the
  filter skips, or a request without a file, leaves \<^verbatim>\<open>req.file\<close> undefined. Whether a file of
  exactly \<^verbatim>\<open>limits.fileSize\<close> bytes passes depends on the version of the library; no theorem
  rests on that case.
\<close>

fun uploadParts :: "UploadedFile list \<Rightarrow> nat \<Rightarrow> UploadedFile option \<Rightarrow> exn + UploadedFile option" where
  "uploadParts [] filesLeft file = Inr file"
| "uploadParts (p # ps) filesLeft file =
     (if originalname p = [] then uploadParts ps filesLeft file
      else if fieldname p \<noteq> ''file'' \<or> filesLeft = 0
           then Inl (MulterError ''LIMIT_UNEXPECTED_FILE'' ''Unexpected field'')
      else
        (case fileFilter (originalname p) of
           Inl e \<Rightarrow> Inl e
         | Inr includeFile \<Rightarrow>
             if \<not> includeFile then uploadParts ps (filesLeft - 1) file
             else if length (filebuffer p) > fileSizeLimit
                  then Inl (MulterError ''LIMIT_FILE_SIZE'' ''File too large'')
             else uploadParts ps (filesLeft - 1) (Some p)))"

definition uploadSingle :: "UploadedFile list \<Rightarrow> exn + UploadedFile option" where
  "uploadSingle parts = uploadParts parts 1 None"

text \<open>
  What a route does with a request: it answers with a status and a JSON body, or the error goes
  to \<^verbatim>\<open>next(err)\<close>, to the error handling of the application, which is outside these files.
\<close>

datatype body = Message string | Success | SuccessFile SqliteFile

datatype response = Json nat body | NextError exn

fun statusOf :: "response \<Rightarrow> nat option" where
  "statusOf (Json status b) = Some status"
| "statusOf (NextError e) = None"

text \<open>
  The handler of POST /api/sqlite/upload. \<open>uuid1\<close> and \<open>uuid2\<close> are the two calls of
  \<^verbatim>\<open>randomUUID()\<close> (file name and record id). \<^verbatim>\<open>insertSqliteFileSchema.parse\<close> accepts the
  two strings and the size and returns them unchanged.
\<close>

definition uploadHandler ::
  "'fs node \<Rightarrow> 'fs MemStorage \<Rightarrow> string \<Rightarrow> string \<Rightarrow> nat \<Rightarrow> UploadedFile option
     \<Rightarrow> response \<times> 'fs MemStorage" where
  "uploadHandler fs storage uuid1 uuid2 now file =
     (case file of
        None \<Rightarrow> (Json 400 (Message ''No file uploaded''), storage)
      | Some f \<Rightarrow>
          (let fname = uuid1 @ ''_'' @ originalname f in
           case saveFileBuffer fs storage fname (filebuffer f) of
             (Inl e, storage1) \<Rightarrow>
               (Json 500 (Message (if instanceofError e then message e else ''Upload failed'')),
                storage1)
           | (Inr u, storage1) \<Rightarrow>
               (let fileData = \<lparr>filename = fname, originalName = originalname f,
                                 fileSize = length (filebuffer f)\<rparr>;
                    (sqliteFile, storage2) = createSqliteFile storage1 fileData uuid2 now
                in (Json 200 (SuccessFile sqliteFile), storage2))))"

definition uploadRoute ::
  "'fs node \<Rightarrow> 'fs MemStorage \<Rightarrow> string \<Rightarrow> string \<Rightarrow> nat \<Rightarrow> UploadedFile list
     \<Rightarrow> response \<times> 'fs MemStorage" where
  "uploadRoute fs storage uuid1 uuid2 now parts =
     (case uploadSingle parts of
        Inl e \<Rightarrow> (NextError e, storage)
      | Inr file \<Rightarrow> uploadHandler fs storage uuid1 uuid2 now file)"

text \<open>The handler of DELETE /api/sqlite/:id.\<close>

definition deleteRoute :: "'fs node \<Rightarrow> 'fs MemStorage \<Rightarrow> string \<Rightarrow> response \<times> 'fs MemStorage" where
  "deleteRoute fs storage ident =
     (case deleteSqliteFile fs storage ident of
        (Inl e, storage') \<Rightarrow>
          (Json 500 (Message (if instanceofError e then message e else ''Delete failed'')),
           storage')
      | (Inr u, storage') \<Rightarrow> (Json 200 Success, storage'))"

section \<open>The queries of an introspection\<close>

text \<open>
  The texts an introspection of a handle in state \<open>db\<close> runs when none of them changes the
  handle, each spelled out: the catalog query, then for every catalog row the column query and
  the count query with the name of the row (its first cell) put in as it is. \<open>noMutation\<close>
  says that each of them leaves the handle in the state \<open>db\<close>.
\<close>

definition catalogText :: string where
  "catalogText = ''SELECT name, sql FROM sqlite_master WHERE type='' @ [CHR 0x27] @ ''table''
     @ [CHR 0x27] @ '' AND name NOT LIKE '' @ [CHR 0x27] @ ''sqlite_%'' @ [CHR 0x27]"

definition issuedQueries :: "('n \<Rightarrow> string) \<Rightarrow> ('db, 'n) dbexec \<Rightarrow> 'db \<Rightarrow> string list" where
  "issuedQueries numText exec db =
     catalogText #
     (case fst (exec db catalogText) of
        Inr (r # _) \<Rightarrow>
          concat (map (\<lambda>row. [''PRAGMA table_info('' @ toStringU numText (nth_opt row 0) @ '')'',
                               ''SELECT COUNT(*) FROM '' @ toStringU numText (nth_opt row 0)])
                      (values r))
      | _ \<Rightarrow> [])"

definition noMutation :: "('n \<Rightarrow> string) \<Rightarrow> ('db, 'n) dbexec \<Rightarrow> 'db \<Rightarrow> bool" where
  "noMutation numText exec db =
     list_all (\<lambda>q. snd (exec db q) = db) (issuedQueries numText exec db)"


section \<open>Concrete handles and a concrete file system\<close>

text \<open>
  Small instances of the parameters, on which the theorems are evaluated. \<open>demo_exec\<close>
  answers as SQLite does for a database with the single table \<^verbatim>\<open>t(x INTEGER)\<close>; the state of
  the handle is the number of rows of \<^verbatim>\<open>t\<close>.
\<close>

definition syntaxError :: "string \<Rightarrow> exn" where
  "syntaxError tok = Error (''near '' @ [dquote] @ tok @ [dquote] @ '': syntax error'')"

definition demo_exec :: "(nat, int) dbexec" where
  "demo_exec n sql =
     (if sql = tablesQuery then
        (Inr [\<lparr>columns = [''name'', ''sql''],
               values = [[SqlText ''t'', SqlText ''CREATE TABLE t(x INTEGER)'']]\<rparr>], n)
      else if sql = ''PRAGMA table_info(t)'' then
        (Inr [\<lparr>columns = [''cid'', ''name'', ''type'', ''notnull'', ''dflt_value'', ''pk''],
               values = [[SqlNumber 0, SqlText ''x'', SqlText ''INTEGER'', SqlNumber 0, SqlNull,
                          SqlNumber 0]]\<rparr>], n)
      else if sql = ''SELECT COUNT(*) FROM t'' then
        (Inr [\<lparr>columns = [''COUNT(*)''], values = [[SqlNumber (int n)]]\<rparr>], n)
      else if sql = ''INSERT INTO t VALUES (1)'' then (Inr [], Suc n)
      else if sql = ''SELECT 1; SELECT 2'' then
        (Inr [\<lparr>columns = [''1''], values = [[SqlNumber 1]]\<rparr>,
              \<lparr>columns = [''2''], values = [[SqlNumber 2]]\<rparr>], n)
      else (Inl (syntaxError (takeWhile (\<lambda>c. c \<noteq> CHR '' '') sql)), n))"


text \<open>A file system that is a map from paths to contents, on which no call fails.\<close>

definition mapfs :: "(string \<rightharpoonup> buffer) node" where
  "mapfs =
     \<lparr>existsSync = (\<lambda>d p. d p \<noteq> None),
      readFileSync = (\<lambda>d p. case d p of None \<Rightarrow> Inl (Error ''ENOENT'') | Some b \<Rightarrow> Inr b),
      writeFileSync = (\<lambda>d p b. Inr (d(p \<mapsto> b))),
      unlinkSync = (\<lambda>d p. Inr (d(p := None))),
      path_join = (\<lambda>dir f. dir @ ''/'' @ f)\<rparr>"

definition emptyStorage :: "(string \<rightharpoonup> buffer) MemStorage" where
  "emptyStorage =
     \<lparr>files = Map.empty, fileBuffers = Map.empty, uploadsDir = ''uploads'', disk = Map.empty\<rparr>"

text \<open>The rows of a catalog result whose two queries leave the handle in the state \<open>db\<close>.\<close>

definition rowQueriesFixed ::
  "('n \<Rightarrow> string) \<Rightarrow> ('db, 'n) dbexec \<Rightarrow> 'db \<Rightarrow> 'n sqlvalue list list \<Rightarrow> bool" where
  "rowQueriesFixed numText exec db rows =
     (\<forall>row \<in> set rows. snd (exec db (columnsQuery numText (nth_opt row 0))) = db \<and>
                        snd (exec db (countQuery numText (nth_opt row 0))) = db)"

text \<open>The storage after one buffer was saved under the name \<^verbatim>\<open>a.db\<close>, and two uploads.\<close>

definition savedStorage :: "(string \<rightharpoonup> buffer) MemStorage" where
  "savedStorage =
     \<lparr>files = Map.empty, fileBuffers = [''a.db'' \<mapsto> [1, 2, 3]], uploadsDir = ''uploads'',
      disk = [''uploads/a.db'' \<mapsto> [1, 2, 3]]\<rparr>"

definition txtFile :: UploadedFile where
  "txtFile = \<lparr>fieldname = ''file'', originalname = ''notes.txt'', filebuffer = [1, 2, 3]\<rparr>"

definition bigFile :: UploadedFile where
  "bigFile =
     \<lparr>fieldname = ''file'', originalname = ''Big.SQLite'',
      filebuffer = replicate (150 * 1024 * 1024) 0\<rparr>"

text \<open>
  \<open>two_exec\<close> answers as SQLite does for a database with the tables
  \<^verbatim>\<open>users(id INTEGER, name TEXT)\<close> and \<^verbatim>\<open>posts(id INTEGER)\<close>, created in this order; the state
  of the handle is the pair of their numbers of rows.
\<close>

definition two_exec :: "(nat \<times> nat, int) dbexec" where
  "two_exec st sql =
     (if sql = catalogText then
        (Inr [\<lparr>columns = [''name'', ''sql''],
               values = [[SqlText ''users'', SqlText ''CREATE TABLE users(id INTEGER, name TEXT)''],
                         [SqlText ''posts'', SqlText ''CREATE TABLE posts(id INTEGER)'']]\<rparr>], st)
      else if sql = ''PRAGMA table_info(users)'' then
        (Inr [\<lparr>columns = [''cid'', ''name'', ''type'', ''notnull'', ''dflt_value'', ''pk''],
               values = [[SqlNumber 0, SqlText ''id'', SqlText ''INTEGER'', SqlNumber 0, SqlNull,
                          SqlNumber 0],
                         [SqlNumber 1, SqlText ''name'', SqlText ''TEXT'', SqlNumber 0, SqlNull,
                          SqlNumber 0]]\<rparr>], st)
      else if sql = ''PRAGMA table_info(posts)'' then
        (Inr [\<lparr>columns = [''cid'', ''name'', ''type'', ''notnull'', ''dflt_value'', ''pk''],
               values = [[SqlNumber 0, SqlText ''id'', SqlText ''INTEGER'', SqlNumber 0, SqlNull,
                          SqlNumber 0]]\<rparr>], st)
      else if sql = ''SELECT COUNT(*) FROM users'' then
        (Inr [\<lparr>columns = [''COUNT(*)''], values = [[SqlNumber (int (fst st))]]\<rparr>], st)
      else if sql = ''SELECT COUNT(*) FROM posts'' then
        (Inr [\<lparr>columns = [''COUNT(*)''], values = [[SqlNumber (int (snd st))]]\<rparr>], st)
      else (Inl (syntaxError (takeWhile (\<lambda>c. c \<noteq> CHR '' '') sql)), st))"

text \<open>The schema of the handle \<open>two_exec\<close> with three users and two posts.\<close>

definition twoSchema :: "int DatabaseSchema" where
  "twoSchema =
     \<lparr>tables =
        [\<lparr>name = Some (SqlText ''users''),
          tcolumns = [\<lparr>cid = Some (SqlNumber 0), cname = Some (SqlText ''id''),
                       ctype = Some (SqlText ''INTEGER''), notnull = Some (SqlNumber 0),
                       dflt_value = Some SqlNull, pk = Some (SqlNumber 0)\<rparr>,
                      \<lparr>cid = Some (SqlNumber 1), cname = Some (SqlText ''name''),
                       ctype = Some (SqlText ''TEXT''), notnull = Some (SqlNumber 0),
                       dflt_value = Some SqlNull, pk = Some (SqlNumber 0)\<rparr>],
          rowCount = Some (SqlNumber 3)\<rparr>,
         \<lparr>name = Some (SqlText ''posts''),
          tcolumns = [\<lparr>cid = Some (SqlNumber 0), cname = Some (SqlText ''id''),
                       ctype = Some (SqlText ''INTEGER''), notnull = Some (SqlNumber 0),
                       dflt_value = Some SqlNull, pk = Some (SqlNumber 0)\<rparr>],
          rowCount = Some (SqlNumber 2)\<rparr>]\<rparr>"




section \<open>Theorems\<close>

lemma join_separated: "join [c] xs = spec_separated c xs"
proof (induction xs)
  case Nil
  then show ?case by simp
next
  case (Cons x xs)
  then show ?case by (cases xs) simp_all
qed

lemma join_separated_sep: "sep = [c] \<Longrightarrow> join sep xs = spec_separated c xs"
  by (simp add: join_separated)

lemma quoteCell_spec: "quoteCell numText v = spec_field (spec_cellText numText v)"
  by (cases v) (simp_all add: quoteCell_def spec_field_def)

lemma quoteCol_spec: "quoteCol = spec_field"
  by (rule ext) (simp add: quoteCol_def spec_field_def)

lemma pushRows_append:
  "pushRows numText rows acc =
     acc @ map (\<lambda>row. spec_row (map (spec_cellText numText) row)) rows"
proof (induction rows arbitrary: acc)
  case Nil
  then show ?case by simp
next
  case (Cons row rows)
  have "join '','' (map (quoteCell numText) row) = spec_row (map (spec_cellText numText) row)"
    by (simp add: spec_row_def join_separated_sep quoteCell_spec [abs_def] comp_def)
  then show ?case by (simp add: Cons.IH)
qed

lemma exportToCSV_refines: "exportToCSV numText r = spec_csv numText r"
  by (simp add: exportToCSV_def spec_csv_def pushRows_append join_separated
      spec_row_def join_separated_sep quoteCol_spec)

lemma showInt_one: "showInt 1 = ''1''"
  by (simp add: showInt_def digits.simps digit_def)

subsection \<open>Export of a query result as text\<close>

text \<open>
  Claim C4. For every query result, \<open>exportToCSV\<close> produces the document the specification
  describes (\<open>spec_csv\<close>): the empty string when there is no column, and otherwise the header
  row of the column names followed by one line per data row, every field wrapped in double
  quotes, fields separated by commas, lines separated by newlines, a null cell rendered as the
  empty string and any other cell as its text form. For the columns a, b and the rows
  (1, x), (null, y) the document is exactly the three lines
  \<^verbatim>\<open>"a","b"\<close>, \<^verbatim>\<open>"1","x"\<close>, \<^verbatim>\<open>"","y"\<close>.
\<close>

theorem exportToCSV_document:
  "exportToCSV numText r = spec_csv numText r \<and>
   exportToCSV showInt
     \<lparr>columns = [''a'', ''b''],
      values = [[SqlNumber 1, SqlText ''x''], [SqlNull, SqlText ''y'']]\<rparr> =
   [CHR 0x22, CHR ''a'', CHR 0x22, CHR '','', CHR 0x22, CHR ''b'', CHR 0x22, CHR 0x0A,
    CHR 0x22, CHR ''1'', CHR 0x22, CHR '','', CHR 0x22, CHR ''x'', CHR 0x22, CHR 0x0A,
    CHR 0x22, CHR 0x22, CHR '','', CHR 0x22, CHR ''y'', CHR 0x22]"
proof
  show "exportToCSV numText r = spec_csv numText r"
    by (rule exportToCSV_refines)
  show "exportToCSV showInt
     \<lparr>columns = [''a'', ''b''],
      values = [[SqlNumber 1, SqlText ''x''], [SqlNull, SqlText ''y'']]\<rparr> =
   [CHR 0x22, CHR ''a'', CHR 0x22, CHR '','', CHR 0x22, CHR ''b'', CHR 0x22, CHR 0x0A,
    CHR 0x22, CHR ''1'', CHR 0x22, CHR '','', CHR 0x22, CHR ''x'', CHR 0x22, CHR 0x0A,
    CHR 0x22, CHR 0x22, CHR '','', CHR 0x22, CHR ''y'', CHR 0x22]"
    by (simp add: exportToCSV_def quoteCol_def quoteCell_def dquote_def newline_def showInt_one)
qed

subsection \<open>Running a query\<close>

text \<open>
  Claim C5. When the engine runs the text and reports no result set (as for DDL or an INSERT),
  \<open>executeQuery\<close> returns, without raising, the result with no columns and no rows, and the
  handle is in the state the engine left it in.
\<close>

theorem executeQuery_no_result:
  "fst (exec db sql) = Inr [] \<Longrightarrow>
   executeQuery exec db sql = (Inr \<lparr>columns = [], values = []\<rparr>, snd (exec db sql))"
  by (cases "exec db sql") (simp add: executeQuery_def)

theorem executeQuery_no_result_witness:
  "fst (demo_exec 3 ''INSERT INTO t VALUES (1)'') = Inr [] \<and>
   executeQuery demo_exec 3 ''INSERT INTO t VALUES (1)'' = (Inr \<lparr>columns = [], values = []\<rparr>, 4)"
proof -
  have h: "fst (demo_exec 3 ''INSERT INTO t VALUES (1)'') = Inr []"
    by (simp add: demo_exec_def tablesQuery_def)
  have s: "snd (demo_exec 3 ''INSERT INTO t VALUES (1)'') = 4"
    by (simp add: demo_exec_def tablesQuery_def)
  show ?thesis
    using h executeQuery_no_result [of demo_exec 3 "''INSERT INTO t VALUES (1)''"] by (simp add: s)
qed

text \<open>
  Claim C6. When the engine reports one result set or several, \<open>executeQuery\<close> returns the
  columns and the rows of the first one; the others are dropped.
\<close>

theorem executeQuery_first_result:
  "fst (exec db sql) = Inr (r # rs) \<Longrightarrow>
   executeQuery exec db sql = (Inr \<lparr>columns = columns r, values = values r\<rparr>, snd (exec db sql))"
  by (cases "exec db sql") (simp add: executeQuery_def)

theorem executeQuery_first_result_witness:
  "fst (demo_exec 3 ''SELECT 1; SELECT 2'') =
     Inr [\<lparr>columns = [''1''], values = [[SqlNumber 1]]\<rparr>,
          \<lparr>columns = [''2''], values = [[SqlNumber 2]]\<rparr>] \<and>
   executeQuery demo_exec 3 ''SELECT 1; SELECT 2'' =
     (Inr \<lparr>columns = [''1''], values = [[SqlNumber 1]]\<rparr>, 3)"
proof -
  have h: "fst (demo_exec 3 ''SELECT 1; SELECT 2'') =
     Inr [\<lparr>columns = [''1''], values = [[SqlNumber 1]]\<rparr>,
          \<lparr>columns = [''2''], values = [[SqlNumber 2]]\<rparr>]"
    by (simp add: demo_exec_def tablesQuery_def)
  have s: "snd (demo_exec 3 ''SELECT 1; SELECT 2'') = 3"
    by (simp add: demo_exec_def tablesQuery_def)
  show ?thesis
    using h executeQuery_first_result [of demo_exec 3 "''SELECT 1; SELECT 2''"] by (simp add: s)
qed

text \<open>
  Claim C7. When the engine throws on the text, \<open>executeQuery\<close> raises an \<open>Error\<close> whose
  message is \<^verbatim>\<open>SQL Error: \<close> followed by the message of the thrown error, unchanged (the engine
  reports its failures as \<^verbatim>\<open>Error\<close> objects; a thrown value that is not one gives
  \<^verbatim>\<open>SQL Error: Unknown error\<close>). \<open>executeQuery\<close> does nothing else to the handle: its state is
  the one the engine's failed call left.
\<close>

theorem executeQuery_engine_failure:
  "fst (exec db sql) = Inl e \<Longrightarrow>
   executeQuery exec db sql =
     (Inl (Error (''SQL Error: '' @ (if instanceofError e then message e else ''Unknown error''))),
      snd (exec db sql))"
  by (cases "exec db sql") (simp add: executeQuery_def sqlError_def)

theorem executeQuery_engine_failure_witness:
  "fst (demo_exec 3 ''SELEKT * FROM t'') = Inl (syntaxError ''SELEKT'') \<and>
   executeQuery demo_exec 3 ''SELEKT * FROM t'' =
     (Inl (Error (''SQL Error: near '' @ [CHR 0x22] @ ''SELEKT'' @ [CHR 0x22] @ '': syntax error'')), 3)"
proof -
  have h: "fst (demo_exec 3 ''SELEKT * FROM t'') = Inl (syntaxError ''SELEKT'')"
    by (simp add: demo_exec_def tablesQuery_def)
  have s: "snd (demo_exec 3 ''SELEKT * FROM t'') = 3"
    by (simp add: demo_exec_def tablesQuery_def)
  show ?thesis
    using h executeQuery_engine_failure [of demo_exec 3 "''SELEKT * FROM t''"]
    by (simp add: s syntaxError_def dquote_def)
qed

subsection \<open>The file store\<close>

text \<open>
  Claim C9. For an id with no metadata record, DELETE /api/sqlite/:id answers 200 with
  \<^verbatim>\<open>{success: true}\<close> and the storage (the records, the buffer cache and the disk) is unchanged.
\<close>

theorem delete_unknown_id:
  "files storage ident = None \<Longrightarrow> deleteRoute fs storage ident = (Json 200 Success, storage)"
  by (simp add: deleteRoute_def deleteSqliteFile_def)

theorem delete_unknown_id_witness:
  "files emptyStorage ''no-such-id'' = None \<and>
   deleteRoute mapfs emptyStorage ''no-such-id'' = (Json 200 Success, emptyStorage)"
proof -
  have h: "files emptyStorage ''no-such-id'' = None"
    by (simp add: emptyStorage_def)
  show ?thesis
    using h delete_unknown_id [OF h] by simp
qed

text \<open>
  Claim C10. When \<open>saveFileBuffer\<close> completes for the name \<open>f\<close> and the buffer \<open>b\<close>,
  \<open>getFileBuffer\<close> of \<open>f\<close> returns exactly \<open>b\<close>. And when the cache holds a buffer for a
  name, \<open>getFileBuffer\<close> returns that buffer whatever the disk holds: replacing the disk by any
  other one changes neither the result nor the cache.
\<close>

theorem save_then_get:
  "(saveFileBuffer fs this f b = (Inr (), this') \<longrightarrow> getFileBuffer fs this' f = (Inr b, this')) \<and>
   (fileBuffers that g = Some c \<longrightarrow>
      getFileBuffer fs (that\<lparr>disk := d\<rparr>) g = (Inr c, that\<lparr>disk := d\<rparr>))"
  by (auto simp: saveFileBuffer_def getFileBuffer_def Let_def split: sum.splits)

lemma save_empty: "saveFileBuffer mapfs emptyStorage ''a.db'' [1, 2, 3] = (Inr (), savedStorage)"
  by (simp add: saveFileBuffer_def mapfs_def emptyStorage_def savedStorage_def)

theorem save_then_get_witness:
  "saveFileBuffer mapfs emptyStorage ''a.db'' [1, 2, 3] = (Inr (), savedStorage) \<and>
   getFileBuffer mapfs savedStorage ''a.db'' = (Inr [1, 2, 3], savedStorage) \<and>
   fileBuffers savedStorage ''a.db'' = Some [1, 2, 3] \<and>
   getFileBuffer mapfs (savedStorage\<lparr>disk := [''uploads/a.db'' \<mapsto> [9]]\<rparr>) ''a.db'' =
     (Inr [1, 2, 3], savedStorage\<lparr>disk := [''uploads/a.db'' \<mapsto> [9]]\<rparr>)"
proof -
  have c: "fileBuffers savedStorage ''a.db'' = Some [1, 2, 3]"
    by (simp add: savedStorage_def)
  show ?thesis
    using save_empty c
      save_then_get [of mapfs emptyStorage "''a.db''" "[1, 2, 3]" savedStorage savedStorage
        "''a.db''" "[1, 2, 3]" "[''uploads/a.db'' \<mapsto> [9]]"]
    by simp
qed

subsection \<open>Introspection when no query changes the handle\<close>

lemma tablesQuery_text: "tablesQuery = catalogText"
  by (simp add: tablesQuery_def catalogText_def)

lemma columnsQuery_text:
  "columnsQuery numText nm = ''PRAGMA table_info('' @ toStringU numText nm @ '')''"
  by (simp add: columnsQuery_def)

lemma countQuery_text:
  "countQuery numText nm = ''SELECT COUNT(*) FROM '' @ toStringU numText nm"
  by (simp add: countQuery_def)

lemma readTable_fixed:
  assumes "snd (exec db (columnsQuery numText tn)) = db"
    and "snd (exec db (countQuery numText tn)) = db"
  shows "snd (readTable numText exec db tn) = db"
  using assms
  by (cases "exec db (columnsQuery numText tn)"; cases "exec db (countQuery numText tn)")
     (auto simp: readTable_def split: sum.splits)

lemma readTable_Inr:
  assumes "snd (exec db (columnsQuery numText tn)) = db"
    and "snd (exec db (countQuery numText tn)) = db"
    and "fst (readTable numText exec db tn) = Inr t"
  shows "\<exists>cr kr. exec db (columnsQuery numText tn) = (Inr cr, db) \<and>
                 exec db (countQuery numText tn) = (Inr kr, db) \<and>
                 rowCountOf kr = Inr (rowCount t) \<and> tcolumns t = columnsOf cr \<and> name t = tn"
  using assms
  by (cases "exec db (columnsQuery numText tn)"; cases "exec db (countQuery numText tn)")
     (auto simp: readTable_def split: sum.splits)



lemma tableLoop_fixed:
  "rowQueriesFixed numText exec db rows \<Longrightarrow> snd (tableLoop numText exec rows acc db) = db"
proof (induction rows arbitrary: acc)
  case Nil
  then show ?case by simp
next
  case (Cons row rows)
  have fx: "snd (readTable numText exec db (nth_opt row 0)) = db"
    using Cons.prems by (intro readTable_fixed) (simp_all add: rowQueriesFixed_def)
  have rest: "rowQueriesFixed numText exec db rows"
    using Cons.prems by (simp add: rowQueriesFixed_def)
  show ?case
  proof (cases "readTable numText exec db (nth_opt row 0)")
    case (Pair res db')
    with fx have "db' = db" by simp
    with Pair rest show ?thesis
      by (cases res) (simp_all add: Cons.IH)
  qed
qed

lemma tableLoop_entries:
  "rowQueriesFixed numText exec db rows \<Longrightarrow>
   fst (tableLoop numText exec rows acc db) = Inr ts \<Longrightarrow>
   (\<exists>new. ts = acc @ new \<and> length new = length rows \<and>
      (\<forall>i < length rows. fst (readTable numText exec db (nth_opt (rows ! i) 0)) = Inr (new ! i)))"
proof (induction rows arbitrary: acc)
  case Nil
  then show ?case by simp
next
  case (Cons row rows)
  have fx: "snd (readTable numText exec db (nth_opt row 0)) = db"
    using Cons.prems(1) by (intro readTable_fixed) (simp_all add: rowQueriesFixed_def)
  have rest: "rowQueriesFixed numText exec db rows"
    using Cons.prems(1) by (simp add: rowQueriesFixed_def)
  show ?case
  proof (cases "readTable numText exec db (nth_opt row 0)")
    case (Pair res db')
    with fx have db': "db' = db" by simp
    show ?thesis
    proof (cases res)
      case (Inl e)
      with Pair Cons.prems(2) show ?thesis by simp
    next
      case (Inr t)
      with Pair db' Cons.prems(2)
      have "fst (tableLoop numText exec rows (acc @ [t]) db) = Inr ts" by simp
      from Cons.IH [OF rest this] obtain new where
        new: "ts = (acc @ [t]) @ new" "length new = length rows"
          "\<forall>i < length rows. fst (readTable numText exec db (nth_opt (rows ! i) 0)) = Inr (new ! i)"
        by blast
      have "\<forall>i < length (row # rows).
              fst (readTable numText exec db (nth_opt ((row # rows) ! i) 0)) = Inr ((t # new) ! i)"
      proof (intro allI impI)
        fix i assume "i < length (row # rows)"
        then show "fst (readTable numText exec db (nth_opt ((row # rows) ! i) 0)) = Inr ((t # new) ! i)"
          using new(3) Pair Inr by (cases i) simp_all
      qed
      with new(1,2) show ?thesis
        by (intro exI [of _ "t # new"]) simp
    qed
  qed
qed


lemma noMutation_catalog:
  "noMutation numText exec db \<Longrightarrow> snd (exec db tablesQuery) = db"
  by (simp add: noMutation_def issuedQueries_def tablesQuery_text)

lemma noMutation_rows:
  "noMutation numText exec db \<Longrightarrow> fst (exec db tablesQuery) = Inr (r # rs) \<Longrightarrow>
   rowQueriesFixed numText exec db (values r)"
  by (auto simp: noMutation_def issuedQueries_def rowQueriesFixed_def list_all_iff
        tablesQuery_text columnsQuery_text countQuery_text)

lemma getSchema_fixed:
  assumes "noMutation numText exec db"
  shows "snd (getSchema numText exec db) = db"
proof (cases "exec db tablesQuery")
  case (Pair res db')
  with noMutation_catalog [OF assms] have db': "db' = db" by simp
  show ?thesis
  proof (cases res)
    case (Inl e)
    with Pair db' show ?thesis by (simp add: getSchema_def)
  next
    case (Inr tablesResult)
    show ?thesis
    proof (cases tablesResult)
      case Nil
      with Pair Inr db' show ?thesis by (simp add: getSchema_def)
    next
      case (Cons r rs)
      with Pair Inr have "fst (exec db tablesQuery) = Inr (r # rs)" by simp
      from noMutation_rows [OF assms this]
      have "snd (tableLoop numText exec (values r) [] db) = db"
        by (rule tableLoop_fixed)
      with Pair Inr Cons db' show ?thesis
        by (cases "tableLoop numText exec (values r) [] db")
           (auto simp: getSchema_def split: sum.splits)
    qed
  qed
qed

lemma getSchema_catalog:
  assumes ok: "fst (getSchema numText exec db) = Inr schema"
  shows "\<exists>tablesResult. fst (exec db tablesQuery) = Inr tablesResult \<and>
           (tablesResult = [] \<longrightarrow> tables schema = [])"
  using ok
  by (cases "exec db tablesQuery") (auto simp: getSchema_def split: sum.splits list.splits)

lemma getSchema_tables:
  assumes nm: "noMutation numText exec db"
    and ok: "fst (getSchema numText exec db) = Inr schema"
    and cat: "fst (exec db tablesQuery) = Inr (r # rs)"
  shows "length (tables schema) = length (values r) \<and>
         (\<forall>i < length (values r).
            fst (readTable numText exec db (nth_opt (values r ! i) 0)) = Inr (tables schema ! i))"
proof (cases "exec db tablesQuery")
  case (Pair res db')
  with noMutation_catalog [OF nm] have db': "db' = db" by simp
  have fx: "rowQueriesFixed numText exec db (values r)"
    by (rule noMutation_rows [OF nm cat])
  have loop: "fst (tableLoop numText exec (values r) [] db) = Inr (tables schema)"
    using Pair cat db' ok
    by (cases "tableLoop numText exec (values r) [] db")
       (auto simp: getSchema_def split: sum.splits)
  from tableLoop_entries [OF fx loop] show ?thesis
    by auto
qed

lemma getSchema_entry:
  assumes nm: "noMutation numText exec db"
    and ok: "fst (getSchema numText exec db) = Inr schema"
    and t: "t \<in> set (tables schema)"
  shows "\<exists>cr kr. exec db (columnsQuery numText (name t)) = (Inr cr, db) \<and>
                 exec db (countQuery numText (name t)) = (Inr kr, db) \<and>
                 rowCountOf kr = Inr (rowCount t) \<and> tcolumns t = columnsOf cr"
proof -
  from getSchema_catalog [OF ok] obtain tablesResult where
    tr: "fst (exec db tablesQuery) = Inr tablesResult" "tablesResult = [] \<longrightarrow> tables schema = []"
    by blast
  from t tr(2) obtain r rs where "tablesResult = r # rs"
    by (cases tablesResult) auto
  with tr(1) have cat: "fst (exec db tablesQuery) = Inr (r # rs)" by simp
  from t obtain i where i: "i < length (tables schema)" "tables schema ! i = t"
    by (auto simp: in_set_conv_nth)
  from getSchema_tables [OF nm ok cat] i
  have len: "i < length (values r)"
    and rd: "fst (readTable numText exec db (nth_opt (values r ! i) 0)) = Inr t"
    by auto
  from noMutation_rows [OF nm cat] len
  have fx: "snd (exec db (columnsQuery numText (nth_opt (values r ! i) 0))) = db"
           "snd (exec db (countQuery numText (nth_opt (values r ! i) 0))) = db"
    by (auto simp: rowQueriesFixed_def)
  from readTable_Inr [OF fx rd] show ?thesis
    by auto
qed



text \<open>
  Claim C2. When no query of the introspection changes the handle, and \<open>getSchema\<close> returns
  a schema that lists the table \<open>t\<close>, then \<open>executeQuery\<close> on the same handle with the text
  \<^verbatim>\<open>SELECT COUNT(*) FROM \<close> followed by the name of \<open>t\<close> succeeds, and the first cell of its
  first row is the \<open>rowCount\<close> recorded for \<open>t\<close> (when the engine reports no result set for
  the count, the recorded count is 0).
\<close>

theorem rowCount_matches_count_query:
  assumes "noMutation numText exec db"
    and "getSchema numText exec db = (Inr schema, db')"
    and "t \<in> set (tables schema)"
  shows "db' = db \<and>
         (\<exists>r. executeQuery exec db' (''SELECT COUNT(*) FROM '' @ toStringU numText (name t)) =
                 (Inr r, db') \<and>
              (case values r of
                 [] \<Rightarrow> rowCount t = Some (SqlNumber 0)
               | row # rows \<Rightarrow> rowCount t = nth_opt row 0))"
proof -
  from assms(2) getSchema_fixed [OF assms(1)] have db': "db' = db" by simp
  from assms(2) have ok: "fst (getSchema numText exec db) = Inr schema" by simp
  from getSchema_entry [OF assms(1) ok assms(3)] obtain kr where
    kr: "exec db (''SELECT COUNT(*) FROM '' @ toStringU numText (name t)) = (Inr kr, db)"
        "rowCountOf kr = Inr (rowCount t)"
    by (auto simp: countQuery_text)
  show ?thesis
  proof (cases kr)
    case Nil
    with kr db' show ?thesis
      by (simp add: executeQuery_def rowCountOf_def)
  next
    case (Cons c cs)
    with kr db' show ?thesis
      by (cases "values c") (simp_all add: executeQuery_def rowCountOf_def)
  qed
qed

lemma two_noMutation: "noMutation showInt two_exec (3, 2)"
  by (simp add: noMutation_def issuedQueries_def two_exec_def catalogText_def nth_opt_def)

lemma two_getSchema: "getSchema showInt two_exec (3, 2) = (Inr twoSchema, (3, 2))"
  by (simp add: getSchema_def readTable_def two_exec_def tablesQuery_def catalogText_def
      columnsQuery_def countQuery_def nth_opt_def columnsOf_def toColumnInfo_def rowCountOf_def
      twoSchema_def)

theorem rowCount_matches_count_query_witness:
  "noMutation showInt two_exec (3, 2) \<and>
   getSchema showInt two_exec (3, 2) = (Inr twoSchema, (3, 2)) \<and>
   tables twoSchema ! 1 \<in> set (tables twoSchema) \<and>
   name (tables twoSchema ! 1) = Some (SqlText ''posts'') \<and>
   rowCount (tables twoSchema ! 1) = Some (SqlNumber 2) \<and>
   executeQuery two_exec (3, 2) ''SELECT COUNT(*) FROM posts'' =
     (Inr \<lparr>columns = [''COUNT(*)''], values = [[SqlNumber 2]]\<rparr>, (3, 2))"
proof -
  have t: "tables twoSchema ! 1 \<in> set (tables twoSchema)"
    by (simp add: twoSchema_def)
  have n: "name (tables twoSchema ! 1) = Some (SqlText ''posts'')"
    by (simp add: twoSchema_def)
  have e: "executeQuery two_exec (3, 2) ''SELECT COUNT(*) FROM posts'' =
     (Inr \<lparr>columns = [''COUNT(*)''], values = [[SqlNumber 2]]\<rparr>, (3, 2))"
    by (simp add: executeQuery_def two_exec_def catalogText_def)
  have q: "''SELECT COUNT(*) FROM '' @ toStringU showInt (name (tables twoSchema ! 1)) =
           ''SELECT COUNT(*) FROM posts''"
    by (simp add: twoSchema_def)
  from rowCount_matches_count_query [OF two_noMutation two_getSchema t]
  have "\<exists>r. executeQuery two_exec (3, 2) ''SELECT COUNT(*) FROM posts'' = (Inr r, (3, 2)) \<and>
            (case values r of
               [] \<Rightarrow> rowCount (tables twoSchema ! 1) = Some (SqlNumber 0)
             | row # rows \<Rightarrow> rowCount (tables twoSchema ! 1) = nth_opt row 0)"
    unfolding q by blast
  then have "rowCount (tables twoSchema ! 1) = Some (SqlNumber 2)"
    by (simp add: e nth_opt_def)
  with two_noMutation two_getSchema t n e show ?thesis
    by simp
qed








subsection \<open>The upload filter\<close>

lemma extname_suffix:
  assumes "\<not> suffix ''/'' p"
  shows "suffix (extname p) p"
proof -
  have trimmed: "rev (dropWhile (\<lambda>c. c = CHR ''/'') (rev p)) = p"
  proof (cases "rev p")
    case Nil
    then show ?thesis by simp
  next
    case (Cons c cs)
    then have p: "p = rev cs @ [c]" by (metis rev.simps(2) rev_rev_ident)
    with assms have "c \<noteq> CHR ''/''" by (auto simp: suffix_def)
    with Cons show ?thesis by (simp add: p)
  qed
  have base: "suffix (rev (takeWhile (\<lambda>c. c \<noteq> CHR ''/'') (rev p))) p"
    by (metis suffix_def rev_append rev_rev_ident takeWhile_dropWhile_id)
  have "suffix (extname p) (rev (takeWhile (\<lambda>c. c \<noteq> CHR ''/'') (rev p)))"
    by (simp add: extname_def trimmed Let_def suffix_drop)
  from this base show ?thesis
    by (rule suffix_order.trans)
qed

lemma toLowerCase_suffix: "suffix a b \<Longrightarrow> suffix (toLowerCase a) (toLowerCase b)"
  by (auto simp: suffix_def toLowerCase_def)

text \<open>
  The filter refuses every name that does not end in a slash and whose lower-case form ends in
  none of \<^verbatim>\<open>.db\<close>, \<^verbatim>\<open>.sqlite\<close>, \<^verbatim>\<open>.sqlite3\<close>; a request whose only file part has such a name,
  in the field \<^verbatim>\<open>file\<close>, never reaches the handler, and the storage is unchanged.
\<close>

lemma fileFilter_rejects:
  assumes "\<not> suffix ''/'' nm"
    and "\<not> suffix ''.db'' (toLowerCase nm)"
    and "\<not> suffix ''.sqlite'' (toLowerCase nm)"
    and "\<not> suffix ''.sqlite3'' (toLowerCase nm)"
  shows "fileFilter nm = Inl (Error ''Only SQLite files (.db, .sqlite, .sqlite3) are allowed'')"
proof -
  have "suffix (toLowerCase (extname nm)) (toLowerCase nm)"
    by (rule toLowerCase_suffix [OF extname_suffix [OF assms(1)]])
  with assms(2-4) have "toLowerCase (extname nm) \<notin> set allowedExts"
    by (auto simp: allowedExts_def)
  then show ?thesis
    by (simp add: fileFilter_def Let_def filterError_def)
qed

lemma uploadRoute_filter_error:
  assumes "fieldname p = ''file''"
    and "originalname p \<noteq> []"
    and "fileFilter (originalname p) = Inl e"
  shows "uploadRoute fs storage uuid1 uuid2 now [p] = (NextError e, storage)"
  using assms by (simp add: uploadRoute_def uploadSingle_def)

lemma txtFile_name:
  "\<not> suffix ''/'' (originalname txtFile) \<and>
   \<not> suffix ''.db'' (toLowerCase (originalname txtFile)) \<and>
   \<not> suffix ''.sqlite'' (toLowerCase (originalname txtFile)) \<and>
   \<not> suffix ''.sqlite3'' (toLowerCase (originalname txtFile))"
  by (simp add: txtFile_def toLowerCase_def toLowerChar_def suffix_def
      append_eq_Cons_conv Cons_eq_append_conv)

text \<open>
  Claim C8, at the upload of \<^verbatim>\<open>notes.txt\<close> in the field \<^verbatim>\<open>file\<close>: the filter's error
  \<^verbatim>\<open>Only SQLite files (.db, .sqlite, .sqlite3) are allowed\<close> goes to \<^verbatim>\<open>next(err)\<close>; the handler,
  which holds the route's only answer with status 400, does not run, and nothing is stored. The
  same route answers a request without a file with 400 and the message \<^verbatim>\<open>No file uploaded\<close>,
  and a file of 150 MB that passes the filter is refused with multer's \<^verbatim>\<open>LIMIT_FILE_SIZE\<close>
  error, nothing stored.
\<close>

theorem upload_disallowed_extension:
  "uploadRoute mapfs emptyStorage ''u1'' ''u2'' 0 [txtFile] =
     (NextError (Error ''Only SQLite files (.db, .sqlite, .sqlite3) are allowed''), emptyStorage) \<and>
   uploadRoute mapfs emptyStorage ''u1'' ''u2'' 0 [] =
     (Json 400 (Message ''No file uploaded''), emptyStorage) \<and>
   uploadRoute mapfs emptyStorage ''u1'' ''u2'' 0 [bigFile] =
     (NextError (MulterError ''LIMIT_FILE_SIZE'' ''File too large''), emptyStorage)"
proof (intro conjI)
  have "fileFilter (originalname txtFile) =
          Inl (Error ''Only SQLite files (.db, .sqlite, .sqlite3) are allowed'')"
    using txtFile_name by (intro fileFilter_rejects) simp_all
  then show "uploadRoute mapfs emptyStorage ''u1'' ''u2'' 0 [txtFile] =
     (NextError (Error ''Only SQLite files (.db, .sqlite, .sqlite3) are allowed''), emptyStorage)"
    by (intro uploadRoute_filter_error) (simp_all add: txtFile_def)
next
  show "uploadRoute mapfs emptyStorage ''u1'' ''u2'' 0 [] =
     (Json 400 (Message ''No file uploaded''), emptyStorage)"
    by (simp add: uploadRoute_def uploadSingle_def uploadHandler_def)
next
  have "fileFilter (originalname bigFile) = Inr True"
    by (simp add: bigFile_def fileFilter_def extname_def toLowerCase_def toLowerChar_def
        allowedExts_def)
  then show "uploadRoute mapfs emptyStorage ''u1'' ''u2'' 0 [bigFile] =
     (NextError (MulterError ''LIMIT_FILE_SIZE'' ''File too large''), emptyStorage)"
    by (simp add: uploadRoute_def uploadSingle_def bigFile_def fileSizeLimit_def)
qed

end
